theory Spec2Isabelle
  imports Main "HOL-Library.Word" "HOL-Library.Sublist"
begin

section \<open>Python values used by auto_ssl_bypass.py\<close>

text \<open>
  A Python \<open>str\<close> is a sequence of Unicode code points, a \<open>bytes\<close> object a sequence
  of octets. String literals of the source are written with \<open>lit\<close>.
\<close>

type_synonym pystr = "nat list"
type_synonym bytes = "8 word list"

definition lit :: "string \<Rightarrow> pystr" where
  "lit s = map of_char s"

text \<open>
  \<open>str.strip()\<close> without argument removes leading and trailing white space, which for
  \<open>str\<close> is the set of code points accepted by \<open>str.isspace\<close>.
\<close>

definition py_isspace :: "nat \<Rightarrow> bool" where
  "py_isspace c \<longleftrightarrow>
     (0x09 \<le> c \<and> c \<le> 0x0D) \<or> (0x1C \<le> c \<and> c \<le> 0x20) \<or> c = 0x85 \<or> c = 0xA0 \<or>
     c = 0x1680 \<or> (0x2000 \<le> c \<and> c \<le> 0x200A) \<or> c = 0x2028 \<or> c = 0x2029 \<or>
     c = 0x202F \<or> c = 0x205F \<or> c = 0x3000"

definition strip :: "pystr \<Rightarrow> pystr" where
  "strip s = rev (dropWhile py_isspace (rev (dropWhile py_isspace s)))"

text \<open>\<open>needle in hay\<close> on strings: \<open>needle\<close> occurs as a contiguous part of \<open>hay\<close>.\<close>

fun starts_with :: "pystr \<Rightarrow> pystr \<Rightarrow> bool" where
  "starts_with s [] = True"
| "starts_with [] (p # ps) = False"
| "starts_with (c # cs) (p # ps) = (c = p \<and> starts_with cs ps)"

fun str_in :: "pystr \<Rightarrow> pystr \<Rightarrow> bool" where
  "str_in needle [] = (needle = [])"
| "str_in needle (c # cs) = (starts_with (c # cs) needle \<or> str_in needle cs)"

text \<open>
  \<open>bytes.decode("utf-8")\<close> with the default strict error handling: the well-formed
  byte sequences of UTF-8 (no overlong forms, no surrogates, nothing above U+10FFFF);
  \<open>None\<close> stands for \<open>UnicodeDecodeError\<close>.
\<close>

definition is_cont :: "8 word \<Rightarrow> bool" where
  "is_cont b \<longleftrightarrow> 0x80 \<le> unat b \<and> unat b \<le> 0xBF"

definition cont_bits :: "8 word \<Rightarrow> nat" where
  "cont_bits b = unat b - 0x80"

fun utf8_decode :: "bytes \<Rightarrow> pystr option" where
  "utf8_decode [] = Some []"
| "utf8_decode (b # bs) =
     (let n = unat b in
      if n < 0x80 then map_option ((#) n) (utf8_decode bs)
      else if 0xC2 \<le> n \<and> n \<le> 0xDF then
        (case bs of
           c1 # r \<Rightarrow>
             if is_cont c1
             then map_option ((#) ((n - 0xC0) * 0x40 + cont_bits c1)) (utf8_decode r)
             else None
         | _ \<Rightarrow> None)
      else if 0xE0 \<le> n \<and> n \<le> 0xEF then
        (case bs of
           c1 # c2 # r \<Rightarrow>
             if is_cont c1 \<and> is_cont c2 \<and>
                (n = 0xE0 \<longrightarrow> 0xA0 \<le> unat c1) \<and> (n = 0xED \<longrightarrow> unat c1 \<le> 0x9F)
             then map_option
                    ((#) ((n - 0xE0) * 0x1000 + cont_bits c1 * 0x40 + cont_bits c2))
                    (utf8_decode r)
             else None
         | _ \<Rightarrow> None)
      else if 0xF0 \<le> n \<and> n \<le> 0xF4 then
        (case bs of
           c1 # c2 # c3 # r \<Rightarrow>
             if is_cont c1 \<and> is_cont c2 \<and> is_cont c3 \<and>
                (n = 0xF0 \<longrightarrow> 0x90 \<le> unat c1) \<and> (n = 0xF4 \<longrightarrow> unat c1 \<le> 0x8F)
             then map_option
                    ((#) ((n - 0xF0) * 0x40000 + cont_bits c1 * 0x1000 +
                          cont_bits c2 * 0x40 + cont_bits c3))
                    (utf8_decode r)
             else None
         | _ \<Rightarrow> None)
      else None)"

section \<open>Exceptions and computations\<close>

text \<open>
  The exception classes the source raises or catches. \<open>SystemExit\<close> (raised by
  \<open>sys.exit\<close>) and \<open>KeyboardInterrupt\<close> derive from \<open>BaseException\<close> only, so a
  handler \<open>except Exception\<close> does not catch them. \<open>OtherException\<close> is any other
  subclass of \<open>Exception\<close>, tagged by a number.
\<close>

datatype exn =
    SystemExit int
  | KeyboardInterrupt
  | FileNotFoundError
  | CalledProcessError
  | TransportError
  | HTTPError nat
  | UnicodeDecodeError
  | LZMAError
  | OtherException nat

fun is_Exception :: "exn \<Rightarrow> bool" where
  "is_Exception (SystemExit c) = False"
| "is_Exception KeyboardInterrupt = False"
| "is_Exception e = True"

datatype 'a result = Returned 'a | Raised exn


section \<open>The outside world\<close>

text \<open>
  Everything the script does is a call into the operating system, the debug bridge, the
  network or the instrumentation runtime. Each such call is recorded as an event of the
  run, and its answer is taken from an environment \<open>env\<close>. The local file system
  is part of the state, since the script creates, reads and deletes files and asks
  \<open>os.path.exists\<close>.
\<close>

record completed_process =
  returncode :: int
  stdout :: pystr
  stderr :: pystr

record response =
  status_code :: nat
  content :: bytes

text \<open>The messages printed by the source, one constructor per \<open>print\<close> call.\<close>

datatype msg =
    MsgDeviceArch pystr
  | MsgArchError
  | MsgAdbNotFound
  | MsgNoDevice
  | MsgDeviceDetected pystr pystr pystr
  | MsgScrcpyLaunched
  | MsgScrcpyNotFound
  | MsgScrcpyFailed exn
  | MsgServerExists
  | MsgKilling
  | MsgPushing
  | MsgPushed pystr
  | MsgSettingPermissions
  | MsgRunningServer
  | MsgServerRunning
  | MsgError exn
  | MsgDownloading pystr
  | MsgDownloadOk
  | MsgDownloadError exn
  | MsgJsNotFound pystr
  | MsgJsReadFailed exn
  | MsgSetupStart
  | MsgUsingVersion
  | MsgSpawning
  | MsgScriptLoaded
  | MsgConnectFailed
  | MsgWelcome
  | MsgLogo

datatype event =
    SubprocessRun "pystr list" bool
  | CheckOutput "pystr list"
  | Popen "pystr list"
  | Sleep nat
  | HttpGet pystr
  | FileOpenW pystr
  | FileWrite pystr bytes
  | FileOpenR pystr
  | FileRead pystr
  | FileRemove pystr
  | Print msg
  | FridaGetUsbDevice nat
  | FridaSpawn nat "pystr list"
  | FridaAttach nat int
  | FridaResume nat int
  | FridaCreateScript nat pystr
  | FridaScriptOn nat pystr
  | FridaScriptLoad nat
  | StdinRead

record state =
  fs :: "pystr \<rightharpoonup> bytes"
  trace :: "event list"

text \<open>
  Failures of the outside world. Starting a process fails with \<open>FileNotFoundError\<close>
  when the executable is missing, or with some other \<open>OSError\<close>; with \<open>text=True\<close>
  the output may fail to decode. \<open>subprocess.run\<close> without \<open>check=True\<close> never
  raises \<open>CalledProcessError\<close>. A call into the instrumentation runtime fails with
  \<open>frida.TransportError\<close> or with one of the runtime's other exception classes.
\<close>

datatype os_fault = NotFound | DecodeFault | OtherFault nat

fun exn_of_fault :: "os_fault \<Rightarrow> exn" where
  "exn_of_fault NotFound = FileNotFoundError"
| "exn_of_fault DecodeFault = UnicodeDecodeError"
| "exn_of_fault (OtherFault n) = OtherException n"

datatype frida_fault = Transport | FridaOther nat

fun exn_of_frida :: "frida_fault \<Rightarrow> exn" where
  "exn_of_frida Transport = TransportError"
| "exn_of_frida (FridaOther n) = OtherException n"

datatype fs_op = OpOpenW pystr | OpWrite pystr | OpOpenR pystr | OpRemove pystr

record env =
  proc_run :: "pystr list \<Rightarrow> bool \<Rightarrow> os_fault + completed_process"
  proc_check_output :: "pystr list \<Rightarrow> os_fault + int \<times> bytes"
  proc_popen :: "pystr list \<Rightarrow> os_fault option"
  http_get :: "pystr \<Rightarrow> nat + response"
  lzma_decompress :: "bytes \<Rightarrow> bytes option"
  text_decode :: "bytes \<Rightarrow> pystr option"
  fs_fault :: "fs_op \<Rightarrow> os_fault option"
  frida_get_usb_device :: "nat \<Rightarrow> frida_fault + nat"
  frida_spawn :: "nat \<Rightarrow> pystr list \<Rightarrow> frida_fault + int"
  frida_attach :: "nat \<Rightarrow> int \<Rightarrow> frida_fault + nat"
  frida_resume :: "nat \<Rightarrow> int \<Rightarrow> frida_fault option"
  frida_create_script :: "nat \<Rightarrow> pystr \<Rightarrow> frida_fault + nat"
  frida_script_on :: "nat \<Rightarrow> pystr \<Rightarrow> frida_fault option"
  frida_script_load :: "nat \<Rightarrow> frida_fault option"
  stdin_interrupted :: bool

type_synonym 'a comp = "state \<Rightarrow> 'a result \<times> state"

definition ret :: "'a \<Rightarrow> 'a comp" where
  "ret x s = (Returned x, s)"

definition raise :: "exn \<Rightarrow> 'a comp" where
  "raise e s = (Raised e, s)"

definition pbind :: "'a comp \<Rightarrow> ('a \<Rightarrow> 'b comp) \<Rightarrow> 'b comp" where
  "pbind m k s = (case m s of (Returned x, s') \<Rightarrow> k x s' | (Raised e, s') \<Rightarrow> (Raised e, s'))"

definition pthen :: "'a comp \<Rightarrow> 'b comp \<Rightarrow> 'b comp" where
  "pthen m k = pbind m (\<lambda>_. k)"

text \<open>
  \<open>try: m except ...\<close>: the handler \<open>h\<close> gives the body of the first \<open>except\<close> clause
  that matches the exception, or \<open>None\<close> when no clause matches and the exception
  propagates.
\<close>

definition try_except :: "'a comp \<Rightarrow> (exn \<Rightarrow> 'a comp option) \<Rightarrow> 'a comp" where
  "try_except m h s =
     (case m s of
        (Returned x, s') \<Rightarrow> (Returned x, s')
      | (Raised e, s') \<Rightarrow> (case h e of Some k \<Rightarrow> k s' | None \<Rightarrow> (Raised e, s')))"

definition emit :: "event \<Rightarrow> unit comp" where
  "emit e s = (Returned (), s\<lparr>trace := trace s @ [e]\<rparr>)"

definition py_print :: "msg \<Rightarrow> unit comp" where
  "py_print m = emit (Print m)"

definition sys_exit :: "int \<Rightarrow> 'a comp" where
  "sys_exit c = raise (SystemExit c)"

definition fault_check :: "os_fault option \<Rightarrow> unit comp" where
  "fault_check f = (case f of None \<Rightarrow> ret () | Some x \<Rightarrow> raise (exn_of_fault x))"

definition frida_check :: "frida_fault option \<Rightarrow> unit comp" where
  "frida_check f = (case f of None \<Rightarrow> ret () | Some x \<Rightarrow> raise (exn_of_frida x))"

definition frida_value :: "frida_fault + 'a \<Rightarrow> 'a comp" where
  "frida_value r = (case r of Inl x \<Rightarrow> raise (exn_of_frida x) | Inr v \<Rightarrow> ret v)"

subsection \<open>subprocess, time\<close>

definition subprocess_run :: "env \<Rightarrow> pystr list \<Rightarrow> bool \<Rightarrow> completed_process comp" where
  "subprocess_run env argv shell =
     pthen (emit (SubprocessRun argv shell))
       (case proc_run env argv shell of
          Inl f \<Rightarrow> raise (exn_of_fault f)
        | Inr cp \<Rightarrow> ret cp)"

text \<open>\<open>subprocess.check_output\<close> raises \<open>CalledProcessError\<close> on a non-zero exit status.\<close>

definition subprocess_check_output :: "env \<Rightarrow> pystr list \<Rightarrow> bytes comp" where
  "subprocess_check_output env argv =
     pthen (emit (CheckOutput argv))
       (case proc_check_output env argv of
          Inl f \<Rightarrow> raise (exn_of_fault f)
        | Inr (rc, out) \<Rightarrow> if rc \<noteq> 0 then raise CalledProcessError else ret out)"

definition subprocess_Popen :: "env \<Rightarrow> pystr list \<Rightarrow> unit comp" where
  "subprocess_Popen env argv =
     pthen (emit (Popen argv)) (fault_check (proc_popen env argv))"

definition time_sleep :: "nat \<Rightarrow> unit comp" where
  "time_sleep n = emit (Sleep n)"

definition bytes_decode_utf8 :: "bytes \<Rightarrow> pystr comp" where
  "bytes_decode_utf8 b =
     (case utf8_decode b of None \<Rightarrow> raise UnicodeDecodeError | Some t \<Rightarrow> ret t)"

subsection \<open>Local files\<close>

definition os_path_exists :: "pystr \<Rightarrow> bool comp" where
  "os_path_exists p s = (Returned (fs s p \<noteq> None), s)"

text \<open>\<open>open(p, "wb")\<close> creates the file or truncates it.\<close>

definition open_wb :: "env \<Rightarrow> pystr \<Rightarrow> unit comp" where
  "open_wb env p =
     pthen (emit (FileOpenW p))
       (pthen (fault_check (fs_fault env (OpOpenW p)))
          (\<lambda>s. (Returned (), s\<lparr>fs := (fs s)(p \<mapsto> [])\<rparr>)))"

definition file_write :: "env \<Rightarrow> pystr \<Rightarrow> bytes \<Rightarrow> unit comp" where
  "file_write env p d =
     pthen (emit (FileWrite p d))
       (pthen (fault_check (fs_fault env (OpWrite p)))
          (\<lambda>s. (Returned (),
                 s\<lparr>fs := (fs s)(p \<mapsto> (case fs s p of None \<Rightarrow> d | Some old \<Rightarrow> old @ d))\<rparr>)))"

text \<open>Opening for reading fails when the file does not exist.\<close>

definition open_rb :: "env \<Rightarrow> pystr \<Rightarrow> unit comp" where
  "open_rb env p =
     pthen (emit (FileOpenR p))
       (pthen (\<lambda>s. if fs s p = None then raise FileNotFoundError s else ret () s)
          (fault_check (fs_fault env (OpOpenR p))))"

definition file_read :: "pystr \<Rightarrow> bytes comp" where
  "file_read p =
     pthen (emit (FileRead p))
       (\<lambda>s. (Returned (case fs s p of None \<Rightarrow> [] | Some d \<Rightarrow> d), s))"

definition os_remove :: "env \<Rightarrow> pystr \<Rightarrow> unit comp" where
  "os_remove env p =
     pthen (emit (FileRemove p))
       (pthen (\<lambda>s. if fs s p = None then raise FileNotFoundError s else ret () s)
          (pthen (fault_check (fs_fault env (OpRemove p)))
             (\<lambda>s. (Returned (), s\<lparr>fs := (fs s)(p := None)\<rparr>))))"

text \<open>\<open>lzma.open(p, "rb").read()\<close>: the whole file, decompressed.\<close>

definition lzma_read :: "env \<Rightarrow> pystr \<Rightarrow> bytes comp" where
  "lzma_read env p =
     pbind (file_read p) (\<lambda>d.
       case lzma_decompress env d of None \<Rightarrow> raise LZMAError | Some x \<Rightarrow> ret x)"

text \<open>\<open>open(p, "r").read()\<close>: the whole file, decoded in the locale's encoding.\<close>

definition read_text :: "env \<Rightarrow> pystr \<Rightarrow> pystr comp" where
  "read_text env p =
     pthen (open_rb env p)
       (pbind (file_read p) (\<lambda>d.
          case text_decode env d of None \<Rightarrow> raise UnicodeDecodeError | Some t \<Rightarrow> ret t))"

subsection \<open>requests\<close>

definition requests_get :: "env \<Rightarrow> pystr \<Rightarrow> response comp" where
  "requests_get env url =
     pthen (emit (HttpGet url))
       (case http_get env url of Inl n \<Rightarrow> raise (OtherException n) | Inr r \<Rightarrow> ret r)"

text \<open>\<open>Response.raise_for_status\<close> raises \<open>HTTPError\<close> for a status from 400 to 599.\<close>

definition raise_for_status :: "response \<Rightarrow> unit comp" where
  "raise_for_status r =
     (if 400 \<le> status_code r \<and> status_code r < 600 then raise (HTTPError (status_code r))
      else ret ())"

subsection \<open>frida, stdin\<close>

definition get_usb_device :: "env \<Rightarrow> nat \<Rightarrow> nat comp" where
  "get_usb_device env timeout =
     pthen (emit (FridaGetUsbDevice timeout)) (frida_value (frida_get_usb_device env timeout))"

definition device_spawn :: "env \<Rightarrow> nat \<Rightarrow> pystr list \<Rightarrow> int comp" where
  "device_spawn env device argv =
     pthen (emit (FridaSpawn device argv)) (frida_value (frida_spawn env device argv))"

definition device_attach :: "env \<Rightarrow> nat \<Rightarrow> int \<Rightarrow> nat comp" where
  "device_attach env device pid =
     pthen (emit (FridaAttach device pid)) (frida_value (frida_attach env device pid))"

definition device_resume :: "env \<Rightarrow> nat \<Rightarrow> int \<Rightarrow> unit comp" where
  "device_resume env device pid =
     pthen (emit (FridaResume device pid)) (frida_check (frida_resume env device pid))"

definition session_create_script :: "env \<Rightarrow> nat \<Rightarrow> pystr \<Rightarrow> nat comp" where
  "session_create_script env session src =
     pthen (emit (FridaCreateScript session src))
       (frida_value (frida_create_script env session src))"

definition script_on :: "env \<Rightarrow> nat \<Rightarrow> pystr \<Rightarrow> unit comp" where
  "script_on env script signal =
     pthen (emit (FridaScriptOn script signal)) (frida_check (frida_script_on env script signal))"

definition script_load :: "env \<Rightarrow> nat \<Rightarrow> unit comp" where
  "script_load env script =
     pthen (emit (FridaScriptLoad script)) (frida_check (frida_script_load env script))"

text \<open>
  \<open>sys.stdin.read()\<close> blocks until end of input, or until the operator interrupts it.
\<close>

definition stdin_read :: "env \<Rightarrow> unit comp" where
  "stdin_read env =
     pthen (emit StdinRead) (if stdin_interrupted env then raise KeyboardInterrupt else ret ())"

section \<open>The program\<close>

text \<open>
  The functions of \<open>auto_ssl_bypass.py\<close>, in the order of the source. A leading
  underscore of a Python name is dropped (\<open>_get_prop\<close> is \<open>get_prop\<close>).
\<close>

definition dict_get :: "('k \<rightharpoonup> 'v) \<Rightarrow> 'k \<Rightarrow> 'v \<Rightarrow> 'v" where
  "dict_get d k dflt = (case d k of None \<Rightarrow> dflt | Some v \<Rightarrow> v)"

definition arch_map :: "pystr \<rightharpoonup> pystr" where
  "arch_map = map_of
     [(lit ''arm64-v8a'', lit ''android-arm64''),
      (lit ''armeabi-v7a'', lit ''android-arm''),
      (lit ''x86'', lit ''android-x86''),
      (lit ''x86_64'', lit ''android-x86_64'')]"

definition get_device_arch :: "env \<Rightarrow> pystr comp" where
  "get_device_arch env =
     try_except
       (pbind (subprocess_run env
                 [lit ''adb'', lit ''shell'', lit ''getprop'', lit ''ro.product.cpu.abi''] False)
          (\<lambda>result.
             let arch = strip (stdout result) in
             pthen (py_print (MsgDeviceArch arch))
               (ret (dict_get arch_map arch arch))))
       (\<lambda>e. if e = CalledProcessError
             then Some (pthen (py_print MsgArchError) (sys_exit 1))
             else None)"

definition check_adb_availability :: "env \<Rightarrow> bool comp" where
  "check_adb_availability env =
     try_except
       (pthen (subprocess_run env [lit ''adb'', lit ''version''] False) (ret True))
       (\<lambda>e. if e = FileNotFoundError
             then Some (pthen (py_print MsgAdbNotFound) (sys_exit 1))
             else None)"

definition get_prop :: "env \<Rightarrow> pystr \<Rightarrow> pystr comp" where
  "get_prop env prop_name =
     try_except
       (pbind (subprocess_check_output env
                 [lit ''adb'', lit ''shell'', lit ''getprop'', prop_name])
          (\<lambda>result. pbind (bytes_decode_utf8 result) (\<lambda>t. ret (strip t))))
       (\<lambda>e. if e = CalledProcessError then Some (ret (lit ''Unknown'')) else None)"

text \<open>
  The three properties of the message are queried from left to right; the message shows
  the first two in title case.
\<close>

definition check_device_connection :: "env \<Rightarrow> unit comp" where
  "check_device_connection env =
     pbind (subprocess_run env [lit ''adb'', lit ''get-state''] False) (\<lambda>result.
       pthen (if \<not> str_in (lit ''device'') (stdout result)
              then pthen (py_print MsgNoDevice) (sys_exit 1)
              else ret ())
         (pbind (get_prop env (lit ''ro.product.manufacturer'')) (\<lambda>manufacturer.
          pbind (get_prop env (lit ''ro.product.device'')) (\<lambda>device.
          pbind (get_prop env (lit ''ro.build.version.release'')) (\<lambda>release.
            py_print (MsgDeviceDetected manufacturer device release))))))"

definition launch_scrcpy :: "env \<Rightarrow> unit comp" where
  "launch_scrcpy env =
     try_except
       (pthen (subprocess_Popen env [lit ''scrcpy'']) (py_print MsgScrcpyLaunched))
       (\<lambda>e. if e = FileNotFoundError then Some (py_print MsgScrcpyNotFound)
             else if is_Exception e then Some (py_print (MsgScrcpyFailed e))
             else None)"

definition check_existing_frida_server :: "env \<Rightarrow> bool comp" where
  "check_existing_frida_server env =
     try_except
       (pbind (subprocess_run env
                 [lit ''adb'', lit ''shell'', lit ''ls'', lit ''/data/local/tmp/frida-server'']
                 False)
          (\<lambda>result.
             pthen (if returncode result = 0 then py_print MsgServerExists else ret ())
               (ret (returncode result = 0))))
       (\<lambda>e. if is_Exception e then Some (ret False) else None)"

text \<open>
  \<open>if filename:\<close> holds for a string that is neither \<open>None\<close> nor empty. The results of
  the three privileged shell commands are dropped.
\<close>

definition start_frida :: "env \<Rightarrow> pystr option \<Rightarrow> unit comp" where
  \<open>start_frida env filename =
     try_except
       (pthen (py_print MsgKilling)
       (pthen (subprocess_run env
                 [lit ''adb'', lit ''shell'', lit ''su -c "pkill -9 frida-server"''] True)
       (pthen (time_sleep 1)
       (pthen (case filename of
                 None \<Rightarrow> ret ()
               | Some f \<Rightarrow>
                   if f \<noteq> [] then
                     pthen (py_print MsgPushing)
                       (pbind (subprocess_run env
                                 [lit ''adb'', lit ''push'', f,
                                  lit ''/data/local/tmp/frida-server''] False)
                          (\<lambda>result.
                             if stderr result \<noteq> [] \<and> str_in (lit ''pushed'') (stderr result)
                             then py_print (MsgPushed (strip (stderr result)))
                             else ret ()))
                   else ret ())
       (pthen (py_print MsgSettingPermissions)
       (pthen (subprocess_run env
                 [lit ''adb'', lit ''shell'',
                  lit ''su -c "chmod 755 /data/local/tmp/frida-server"''] True)
       (pthen (py_print MsgRunningServer)
       (pthen (subprocess_run env
                 [lit ''adb'', lit ''shell'',
                  lit ''su -c "/data/local/tmp/frida-server -D"''] True)
       (py_print MsgServerRunning)))))))))
       (\<lambda>e. if e = CalledProcessError
             then Some (pthen (py_print (MsgError e)) (sys_exit 1))
             else None)\<close>

definition download_frida_server :: "env \<Rightarrow> pystr \<Rightarrow> pystr \<Rightarrow> pystr comp" where
  "download_frida_server env frida_version arch =
     (let base_url = lit ''https://github.com/frida/frida/releases/download/'' @ frida_version;
          filename = lit ''frida-server-'' @ frida_version @ lit ''-'' @ arch;
          url = base_url @ lit ''/'' @ filename @ lit ''.xz''
      in
      pthen (py_print (MsgDownloading url))
        (try_except
           (pbind (requests_get env url) (\<lambda>response.
            pthen (raise_for_status response)
           (pthen (py_print MsgDownloadOk)
           (pthen (pthen (open_wb env (filename @ lit ''.xz''))
                     (file_write env (filename @ lit ''.xz'') (content response)))
           (pthen (pthen (open_rb env (filename @ lit ''.xz''))
                     (pthen (open_wb env (lit ''frida-server''))
                        (pbind (lzma_read env (filename @ lit ''.xz''))
                           (file_write env (lit ''frida-server'')))))
           (pthen (os_remove env (filename @ lit ''.xz''))
           (pthen (pbind (os_path_exists filename) (\<lambda>ex.
                     if ex then os_remove env filename else ret ()))
           (ret (lit ''frida-server'')))))))))
           (\<lambda>e. if is_Exception e
                 then Some (pthen (py_print (MsgDownloadError e)) (sys_exit 1))
                 else None)))"

definition validate_js_file :: "pystr \<Rightarrow> bool comp" where
  "validate_js_file script_path =
     pbind (os_path_exists script_path) (\<lambda>ex.
       if \<not> ex then pthen (py_print (MsgJsNotFound script_path)) (ret False)
       else ret True)"

definition load_js_code :: "env \<Rightarrow> pystr \<Rightarrow> pystr comp" where
  "load_js_code env script_path =
     try_except
       (pbind (validate_js_file script_path) (\<lambda>ok.
          if ok then read_text env script_path else sys_exit 1))
       (\<lambda>e. if is_Exception e
             then Some (pthen (py_print (MsgJsReadFailed e)) (sys_exit 1))
             else None)"

definition start_frida_server :: "env \<Rightarrow> unit comp" where
  "start_frida_server env =
     pthen (py_print MsgSetupStart)
    (pthen (check_adb_availability env)
    (pthen (check_device_connection env)
    (pthen (launch_scrcpy env)
    (pbind (get_device_arch env) (\<lambda>device_arch.
     pthen (py_print MsgUsingVersion)
    (pbind (check_existing_frida_server env) (\<lambda>exists.
       if exists then start_frida env None
       else
         pbind (download_frida_server env (lit ''16.5.9'') device_arch) (\<lambda>filename.
         pthen (start_frida env (Some filename))
           (pbind (os_path_exists filename) (\<lambda>ex.
              if ex then os_remove env filename else ret ()))))))))))"

text \<open>
  The body of the \<open>try\<close> statement of \<open>hook_proxygen_SSLVerification\<close> (from
  \<open>frida.get_usb_device\<close> to \<open>sys.stdin.read\<close>), named so that theorems can speak
  of the exception it raises.
\<close>

definition hook_try_body :: "env \<Rightarrow> pystr \<Rightarrow> unit comp" where
  "hook_try_body env js_code =
     pbind (get_usb_device env 5) (\<lambda>device.
     pthen (py_print MsgSpawning)
    (pbind (device_spawn env device [lit ''com.facebook.katana'']) (\<lambda>pid.
     pbind (device_attach env device pid) (\<lambda>session.
     pthen (device_resume env device pid)
    (pbind (session_create_script env session js_code) (\<lambda>script.
     pthen (script_on env script (lit ''message''))
    (pthen (script_load env script)
    (pthen (py_print MsgScriptLoaded)
    (stdin_read env)))))))))"

definition hook_proxygen_SSLVerification :: "env \<Rightarrow> unit comp" where
  "hook_proxygen_SSLVerification env =
     (let script_path = lit ''./MAIN_SSLPINING.js'' in
      pbind (load_js_code env script_path) (\<lambda>js_code.
        try_except (hook_try_body env js_code)
          (\<lambda>e. if e = TransportError
                then Some (pthen (py_print MsgConnectFailed) (sys_exit 1))
                else if is_Exception e
                then Some (pthen (py_print (MsgError e)) (sys_exit 1))
                else None)))"

definition create_logo :: "unit comp" where
  "create_logo = pthen (py_print MsgWelcome) (py_print MsgLogo)"

definition main :: "env \<Rightarrow> unit comp" where
  "main env =
     pthen create_logo (pthen (start_frida_server env) (hook_proxygen_SSLVerification env))"

section \<open>Observations on a run\<close>

text \<open>
  The calls into the instrumentation runtime among the events of a run, by kind, in the
  order in which they were issued.
\<close>

datatype call_kind =
  KConnect | KSpawn | KAttach | KResume | KCreateScript | KScriptOn | KScriptLoad

fun kind_of :: "event \<Rightarrow> call_kind option" where
  "kind_of (FridaGetUsbDevice t) = Some KConnect"
| "kind_of (FridaSpawn d a) = Some KSpawn"
| "kind_of (FridaAttach d p) = Some KAttach"
| "kind_of (FridaResume d p) = Some KResume"
| "kind_of (FridaCreateScript n c) = Some KCreateScript"
| "kind_of (FridaScriptOn n c) = Some KScriptOn"
| "kind_of (FridaScriptLoad n) = Some KScriptLoad"
| "kind_of e = None"

definition frida_calls :: "event list \<Rightarrow> call_kind list" where
  "frida_calls tr = List.map_filter kind_of tr"

text \<open>The calls issued before the first call of kind \<open>k\<close>.\<close>

definition calls_before :: "call_kind \<Rightarrow> call_kind list \<Rightarrow> call_kind list" where
  "calls_before k cs = takeWhile (\<lambda>c. c \<noteq> k) cs"

text \<open>
  Events that reach the network, write a local file, or push a file to the device.
\<close>

fun is_http :: "event \<Rightarrow> bool" where
  "is_http (HttpGet u) = True"
| "is_http e = False"

fun is_file_write :: "event \<Rightarrow> bool" where
  "is_file_write (FileOpenW p) = True"
| "is_file_write (FileWrite p d) = True"
| "is_file_write e = False"

fun is_push :: "event \<Rightarrow> bool" where
  "is_push (SubprocessRun argv shell) = (case argv of a # b # r \<Rightarrow> b = lit ''push'' | _ \<Rightarrow> False)"
| "is_push e = False"

fun is_frida :: "event \<Rightarrow> bool" where
  "is_frida e = (kind_of e \<noteq> None)"

fun written_paths :: "event list \<Rightarrow> pystr list" where
  "written_paths [] = []"
| "written_paths (FileOpenW p # es) = p # written_paths es"
| "written_paths (e # es) = written_paths es"

text \<open>
  The first event of \<open>download_frida_server\<close> is its announcement of the download.
  An artifact event is one of those by which the script fetches, stores or deploys the
  server binary.
\<close>

fun is_download_start :: "event \<Rightarrow> bool" where
  "is_download_start (Print (MsgDownloading u)) = True"
| "is_download_start e = False"

definition is_artifact_event :: "event \<Rightarrow> bool" where
  "is_artifact_event e \<longleftrightarrow> is_http e \<or> is_file_write e \<or> is_push e \<or> is_download_start e"

text \<open>
  The device already holds the server binary: the listing command of
  \<open>check_existing_frida_server\<close> can be run and exits with status 0.
\<close>

definition server_on_device :: "env \<Rightarrow> bool" where
  "server_on_device env =
     (case proc_run env
             [lit ''adb'', lit ''shell'', lit ''ls'', lit ''/data/local/tmp/frida-server'']
             False of
        Inl x \<Rightarrow> False
      | Inr cp \<Rightarrow> returncode cp = 0)"

text \<open>
  From state \<open>s\<close> to state \<open>s'\<close> the local files are the same and the events selected
  by \<open>Q\<close> are the same.
\<close>

definition same_on :: "(event \<Rightarrow> bool) \<Rightarrow> state \<Rightarrow> state \<Rightarrow> bool" where
  "same_on Q s s' \<longleftrightarrow> fs s' = fs s \<and> filter Q (trace s') = filter Q (trace s)"

section \<open>Concrete environments\<close>

text \<open>
  An environment in which every call succeeds: every command exits with status 0 and
  prints \<open>device\<close>, the download answers 200, and the runtime hands out handles.
\<close>

definition ok_process :: completed_process where
  "ok_process = \<lparr>returncode = 0, stdout = lit ''device'', stderr = []\<rparr>"

definition env_ok :: env where
  "env_ok =
     \<lparr>proc_run = (\<lambda>argv shell. Inr ok_process),
      proc_check_output = (\<lambda>argv. Inr (0, [0x4F, 0x6E, 0x65, 0x0A])),
      proc_popen = (\<lambda>argv. None),
      http_get = (\<lambda>url. Inr \<lparr>status_code = 200, content = [0xFD, 0x37]\<rparr>),
      lzma_decompress = (\<lambda>d. Some (0x7F # d)),
      text_decode = (\<lambda>d. Some (map unat d)),
      fs_fault = (\<lambda>op. None),
      frida_get_usb_device = (\<lambda>timeout. Inr 1),
      frida_spawn = (\<lambda>device argv. Inr 4242),
      frida_attach = (\<lambda>device pid. Inr 2),
      frida_resume = (\<lambda>device pid. None),
      frida_create_script = (\<lambda>session src. Inr 3),
      frida_script_on = (\<lambda>script signal. None),
      frida_script_load = (\<lambda>script. None),
      stdin_interrupted = True\<rparr>"

text \<open>A working directory that holds the payload, and an empty one.\<close>

definition fs_payload :: "pystr \<rightharpoonup> bytes" where
  "fs_payload = [lit ''./MAIN_SSLPINING.js'' \<mapsto> [0x2F, 0x2F]]"

definition st_payload :: state where
  "st_payload = \<lparr>fs = fs_payload, trace = []\<rparr>"

definition st_empty :: state where
  "st_empty = \<lparr>fs = Map.empty, trace = []\<rparr>"

text \<open>Variations: one call fails, everything else is as in \<open>env_ok\<close>.\<close>

definition env_unreachable :: env where
  "env_unreachable = env_ok\<lparr>frida_get_usb_device := (\<lambda>timeout. Inl Transport)\<rparr>"

definition env_spawn_fails :: env where
  "env_spawn_fails = env_ok\<lparr>frida_spawn := (\<lambda>device argv. Inl (FridaOther 7))\<rparr>"

definition env_no_device :: env where
  "env_no_device =
     env_ok\<lparr>proc_run := (\<lambda>argv shell.
       Inr \<lparr>returncode = 1, stdout = [], stderr = lit ''error: no devices/emulators found''\<rparr>)\<rparr>"

definition env_no_server :: env where
  "env_no_server =
     env_ok\<lparr>proc_run := (\<lambda>argv shell.
       Inr \<lparr>returncode = 2, stdout = lit ''device'', stderr = []\<rparr>)\<rparr>"

definition env_prop_fails :: env where
  "env_prop_fails = env_ok\<lparr>proc_check_output := (\<lambda>argv. Inr (1, []))\<rparr>"

definition env_prop_not_utf8 :: env where
  "env_prop_not_utf8 = env_ok\<lparr>proc_check_output := (\<lambda>argv. Inr (0, [0xFF]))\<rparr>"

text \<open>The device reports the ABI \<open>abi\<close>, followed by a line feed.\<close>

definition env_abi :: "pystr \<Rightarrow> env" where
  "env_abi abi =
     env_ok\<lparr>proc_run := (\<lambda>argv shell.
       Inr \<lparr>returncode = 0, stdout = abi @ [0x0A], stderr = []\<rparr>)\<rparr>"

text \<open>
  The connect call fails with an exception class of the runtime other than
  \<open>TransportError\<close>; and a run in which the connection is made and every call up to
  \<open>script.load\<close> succeeds, but \<open>script.load\<close> fails with \<open>TransportError\<close>.
\<close>

definition env_connect_other :: env where
  "env_connect_other = env_ok\<lparr>frida_get_usb_device := (\<lambda>timeout. Inl (FridaOther 0))\<rparr>"

definition env_load_transport :: env where
  "env_load_transport = env_ok\<lparr>frida_script_load := (\<lambda>script. Some Transport)\<rparr>"

lemmas comp_defs =
  ret_def raise_def pbind_def pthen_def try_except_def emit_def py_print_def sys_exit_def
  fault_check_def frida_check_def frida_value_def

lemmas world_defs =
  subprocess_run_def subprocess_check_output_def subprocess_Popen_def time_sleep_def
  bytes_decode_utf8_def os_path_exists_def open_wb_def file_write_def open_rb_def
  file_read_def os_remove_def lzma_read_def read_text_def requests_get_def
  raise_for_status_def get_usb_device_def device_spawn_def device_attach_def
  device_resume_def session_create_script_def script_on_def script_load_def stdin_read_def

lemmas env_defs =
  env_ok_def env_unreachable_def env_spawn_fails_def env_no_device_def env_no_server_def
  env_prop_fails_def env_prop_not_utf8_def ok_process_def st_payload_def st_empty_def
  fs_payload_def env_abi_def env_connect_other_def env_load_transport_def

section \<open>The architecture map\<close>

text \<open>
  The lookup \<open>arch_map.get(arch, arch)\<close>: each of the four keys has its tag, and a
  string that is not a key is its own default.
\<close>

lemma dict_get_arch_map:
  "dict_get arch_map a a =
     (if a = lit ''arm64-v8a'' then lit ''android-arm64''
      else if a = lit ''armeabi-v7a'' then lit ''android-arm''
      else if a = lit ''x86'' then lit ''android-x86''
      else if a = lit ''x86_64'' then lit ''android-x86_64''
      else a)"
  by (simp add: dict_get_def arch_map_def)

text \<open>
  C2. When the property query answers, \<open>get_device_arch\<close> prints the raw ABI string
  (the stripped output of the query) and returns: for each of the four supported ABI
  strings its tag, and for every other string that string unchanged. The query and the
  message are the only events of the call.
\<close>

theorem get_device_arch_resolves:
  "proc_run env [lit ''adb'', lit ''shell'', lit ''getprop'', lit ''ro.product.cpu.abi''] False
     = Inr cp \<Longrightarrow>
   get_device_arch env s =
     (Returned
        (if strip (stdout cp) = lit ''arm64-v8a'' then lit ''android-arm64''
         else if strip (stdout cp) = lit ''armeabi-v7a'' then lit ''android-arm''
         else if strip (stdout cp) = lit ''x86'' then lit ''android-x86''
         else if strip (stdout cp) = lit ''x86_64'' then lit ''android-x86_64''
         else strip (stdout cp)),
      s\<lparr>trace := trace s @
           [SubprocessRun
              [lit ''adb'', lit ''shell'', lit ''getprop'', lit ''ro.product.cpu.abi''] False,
            Print (MsgDeviceArch (strip (stdout cp)))]\<rparr>)"
  by (simp add: get_device_arch_def comp_defs world_defs Let_def dict_get_arch_map)

theorem get_device_arch_resolves_witness:
  "proc_run (env_abi (lit ''x86''))
     [lit ''adb'', lit ''shell'', lit ''getprop'', lit ''ro.product.cpu.abi''] False
     = Inr \<lparr>returncode = 0, stdout = lit ''x86'' @ [0x0A], stderr = []\<rparr> \<and>
   fst (get_device_arch (env_abi (lit ''arm64-v8a'')) st_empty)
     = Returned (lit ''android-arm64'') \<and>
   fst (get_device_arch (env_abi (lit ''armeabi-v7a'')) st_empty)
     = Returned (lit ''android-arm'') \<and>
   fst (get_device_arch (env_abi (lit ''x86'')) st_empty)
     = Returned (lit ''android-x86'') \<and>
   fst (get_device_arch (env_abi (lit ''x86_64'')) st_empty)
     = Returned (lit ''android-x86_64'') \<and>
   fst (get_device_arch (env_abi (lit ''riscv64'')) st_empty)
     = Returned (lit ''riscv64'')"
proof -
  have h: "proc_run (env_abi a) argv shell =
      Inr \<lparr>returncode = 0, stdout = a @ [0x0A], stderr = []\<rparr>" for a argv shell
    by (simp add: env_defs)
  show ?thesis
    using h [of "lit ''x86''"]
      get_device_arch_resolves [OF h, of "lit ''arm64-v8a''" st_empty]
      get_device_arch_resolves [OF h, of "lit ''armeabi-v7a''" st_empty]
      get_device_arch_resolves [OF h, of "lit ''x86''" st_empty]
      get_device_arch_resolves [OF h, of "lit ''x86_64''" st_empty]
      get_device_arch_resolves [OF h, of "lit ''riscv64''" st_empty]
    by (simp add: strip_def py_isspace_def lit_def)
qed

section \<open>Property queries\<close>

text \<open>
  C9 (as amended). When the command exits with a non-zero status, \<open>_get_prop\<close> returns
  \<open>Unknown\<close>. When it exits with status 0, \<open>_get_prop\<close> returns the stripped output if
  the output is valid UTF-8; otherwise \<open>UnicodeDecodeError\<close> leaves the function.
\<close>

theorem get_prop_result:
  "proc_check_output env [lit ''adb'', lit ''shell'', lit ''getprop'', name] = Inr (rc, out) \<Longrightarrow>
   fst (get_prop env name s) =
     (if rc \<noteq> 0 then Returned (lit ''Unknown'')
      else case utf8_decode out of
             Some t \<Rightarrow> Returned (strip t)
           | None \<Rightarrow> Raised UnicodeDecodeError)"
  by (simp add: get_prop_def comp_defs world_defs split: option.splits)

theorem get_prop_result_witness:
  "proc_check_output env_prop_fails
     [lit ''adb'', lit ''shell'', lit ''getprop'', lit ''ro.product.device'']
     = Inr (1, []) \<and>
   fst (get_prop env_prop_fails (lit ''ro.product.device'') st_empty)
     = Returned (lit ''Unknown'') \<and>
   proc_check_output env_ok
     [lit ''adb'', lit ''shell'', lit ''getprop'', lit ''ro.product.device'']
     = Inr (0, [0x4F, 0x6E, 0x65, 0x0A]) \<and>
   fst (get_prop env_ok (lit ''ro.product.device'') st_empty) = Returned (lit ''One'')"
proof -
  have h1: "proc_check_output env_prop_fails
      [lit ''adb'', lit ''shell'', lit ''getprop'', lit ''ro.product.device''] = Inr (1, [])"
    by (simp add: env_defs)
  have h2: "proc_check_output env_ok
      [lit ''adb'', lit ''shell'', lit ''getprop'', lit ''ro.product.device'']
      = Inr (0, [0x4F, 0x6E, 0x65, 0x0A])"
    by (simp add: env_defs)
  show ?thesis
    using h1 h2 get_prop_result [OF h1, of st_empty] get_prop_result [OF h2, of st_empty]
    by (simp add: strip_def py_isspace_def lit_def)
qed

text \<open>
  The claim as stated (on success the stripped output is returned) fails for output that
  is not UTF-8: the command exits with status 0 and prints the single byte \<open>0xFF\<close>, and
  \<open>_get_prop\<close> raises.
\<close>

theorem get_prop_not_utf8_counterexample:
  "proc_check_output env_prop_not_utf8
     [lit ''adb'', lit ''shell'', lit ''getprop'', lit ''ro.product.device'']
     = Inr (0, [0xFF]) \<and>
   fst (get_prop env_prop_not_utf8 (lit ''ro.product.device'') st_empty)
     = Raised UnicodeDecodeError"
  by (simp add: get_prop_def comp_defs world_defs env_defs)

section \<open>Starting the server\<close>

text \<open>
  C8. Whatever the kill, chmod and launch commands return (exit status, output, error
  output), \<open>start_frida\<close> returns normally: it neither raises nor exits. When a file
  name is given, the same holds as soon as the push command can be started.
\<close>

theorem start_frida_ignores_results:
  \<open>proc_run env [lit ''adb'', lit ''shell'', lit ''su -c "pkill -9 frida-server"''] True
     = Inr k \<Longrightarrow>
   proc_run env [lit ''adb'', lit ''shell'',
                 lit ''su -c "chmod 755 /data/local/tmp/frida-server"''] True = Inr c \<Longrightarrow>
   proc_run env [lit ''adb'', lit ''shell'',
                 lit ''su -c "/data/local/tmp/frida-server -D"''] True = Inr l \<Longrightarrow>
   (case filename of
      None \<Rightarrow> True
    | Some f \<Rightarrow>
        f = [] \<or>
        \<not> isl (proc_run env
                 [lit ''adb'', lit ''push'', f, lit ''/data/local/tmp/frida-server''] False)) \<Longrightarrow>
   fst (start_frida env filename s) = Returned ()\<close>
  by (cases filename)
     (auto simp add: start_frida_def comp_defs world_defs split: sum.splits)

theorem start_frida_ignores_results_witness:
  \<open>proc_run env_no_device [lit ''adb'', lit ''shell'', lit ''su -c "pkill -9 frida-server"'']
     True
     = Inr \<lparr>returncode = 1, stdout = [], stderr = lit ''error: no devices/emulators found''\<rparr> \<and>
   fst (start_frida env_no_device None st_empty) = Returned () \<and>
   fst (start_frida env_no_device (Some (lit ''frida-server'')) st_empty) = Returned ()\<close>
proof -
  let ?r = "\<lparr>returncode = 1, stdout = [],
             stderr = lit ''error: no devices/emulators found''\<rparr>"
  have h: "proc_run env_no_device argv shell = Inr ?r" for argv shell
    by (simp add: env_defs)
  show ?thesis
    using h start_frida_ignores_results [OF h h h, of None st_empty]
      start_frida_ignores_results [OF h h h, of "Some (lit ''frida-server'')" st_empty]
    by (simp add: h)
qed

section \<open>The interception session\<close>

text \<open>
  C5. When the payload file \<open>./MAIN_SSLPINING.js\<close> does not exist,
  \<open>hook_proxygen_SSLVerification\<close> reports it and exits with status 1; the report is
  the only event of the call, so nothing has been asked of the device or the runtime.
\<close>

theorem hook_missing_payload:
  "fs s (lit ''./MAIN_SSLPINING.js'') = None \<Longrightarrow>
   hook_proxygen_SSLVerification env s =
     (Raised (SystemExit 1),
      s\<lparr>trace := trace s @ [Print (MsgJsNotFound (lit ''./MAIN_SSLPINING.js''))]\<rparr>)"
  by (simp add: hook_proxygen_SSLVerification_def load_js_code_def validate_js_file_def
        comp_defs world_defs Let_def)

theorem hook_missing_payload_witness:
  "fs st_empty (lit ''./MAIN_SSLPINING.js'') = None \<and>
   hook_proxygen_SSLVerification env_ok st_empty =
     (Raised (SystemExit 1),
      \<lparr>fs = Map.empty, trace = [Print (MsgJsNotFound (lit ''./MAIN_SSLPINING.js''))]\<rparr>) \<and>
   \<not> list_ex is_frida (trace (snd (hook_proxygen_SSLVerification env_ok st_empty)))"
  using hook_missing_payload [of st_empty env_ok] by (simp add: st_empty_def)

text \<open>
  C6 (as amended). Once the payload is loaded, any exception (a subclass of
  \<open>Exception\<close>) raised in the \<open>try\<close> statement ends the run with exit status 1, and
  the diagnostic is chosen by the class of the exception alone: \<open>frida.TransportError\<close>,
  raised by the connect call or by any later call, gets the message of the unreachable
  server; every other exception, also one raised by a failing connect call, gets the
  generic message, which is a different one.
\<close>

theorem hook_failure_diagnostics:
  "load_js_code env (lit ''./MAIN_SSLPINING.js'') s = (Returned js, s1) \<Longrightarrow>
   hook_try_body env js s1 = (Raised e, s2) \<Longrightarrow>
   is_Exception e \<Longrightarrow>
   hook_proxygen_SSLVerification env s =
     (Raised (SystemExit 1),
      s2\<lparr>trace := trace s2 @
            [Print (if e = TransportError then MsgConnectFailed else MsgError e)]\<rparr>) \<and>
   MsgConnectFailed \<noteq> MsgError e"
  by (simp add: hook_proxygen_SSLVerification_def comp_defs Let_def)

text \<open>
  The connection step itself: a failure of \<open>frida.get_usb_device(timeout=5)\<close> leaves the
  body of the \<open>try\<close> statement at once, as the exception of that failure.
\<close>

lemma hook_try_body_connect_fails:
  "frida_get_usb_device env 5 = Inl x \<Longrightarrow>
   hook_try_body env js s =
     (Raised (exn_of_frida x), s\<lparr>trace := trace s @ [FridaGetUsbDevice 5]\<rparr>)"
  by (simp add: hook_try_body_def comp_defs world_defs)

theorem hook_failure_diagnostics_witness:
  "load_js_code env_unreachable (lit ''./MAIN_SSLPINING.js'') st_payload =
     (Returned [0x2F, 0x2F],
      \<lparr>fs = fs_payload,
       trace = [FileOpenR (lit ''./MAIN_SSLPINING.js''),
                FileRead (lit ''./MAIN_SSLPINING.js'')]\<rparr>) \<and>
   hook_try_body env_unreachable [0x2F, 0x2F]
      \<lparr>fs = fs_payload,
       trace = [FileOpenR (lit ''./MAIN_SSLPINING.js''),
                FileRead (lit ''./MAIN_SSLPINING.js'')]\<rparr> =
     (Raised TransportError,
      \<lparr>fs = fs_payload,
       trace = [FileOpenR (lit ''./MAIN_SSLPINING.js''),
                FileRead (lit ''./MAIN_SSLPINING.js''),
                FridaGetUsbDevice 5]\<rparr>) \<and>
   is_Exception TransportError \<and>
   hook_proxygen_SSLVerification env_unreachable st_payload =
     (Raised (SystemExit 1),
      \<lparr>fs = fs_payload,
       trace = [FileOpenR (lit ''./MAIN_SSLPINING.js''),
                FileRead (lit ''./MAIN_SSLPINING.js''),
                FridaGetUsbDevice 5, Print MsgConnectFailed]\<rparr>) \<and>
   hook_try_body env_spawn_fails [0x2F, 0x2F]
      \<lparr>fs = fs_payload,
       trace = [FileOpenR (lit ''./MAIN_SSLPINING.js''),
                FileRead (lit ''./MAIN_SSLPINING.js'')]\<rparr> =
     (Raised (OtherException 7),
      \<lparr>fs = fs_payload,
       trace = [FileOpenR (lit ''./MAIN_SSLPINING.js''),
                FileRead (lit ''./MAIN_SSLPINING.js''),
                FridaGetUsbDevice 5, Print MsgSpawning,
                FridaSpawn 1 [lit ''com.facebook.katana'']]\<rparr>) \<and>
   hook_proxygen_SSLVerification env_spawn_fails st_payload =
     (Raised (SystemExit 1),
      \<lparr>fs = fs_payload,
       trace = [FileOpenR (lit ''./MAIN_SSLPINING.js''),
                FileRead (lit ''./MAIN_SSLPINING.js''),
                FridaGetUsbDevice 5, Print MsgSpawning,
                FridaSpawn 1 [lit ''com.facebook.katana''],
                Print (MsgError (OtherException 7))]\<rparr>)"
proof -
  let ?s1 = "\<lparr>fs = fs_payload,
              trace = [FileOpenR (lit ''./MAIN_SSLPINING.js''),
                       FileRead (lit ''./MAIN_SSLPINING.js'')]\<rparr>"
  have l1: "load_js_code env_unreachable (lit ''./MAIN_SSLPINING.js'') st_payload =
      (Returned [0x2F, 0x2F], ?s1)"
    by (simp add: load_js_code_def validate_js_file_def comp_defs world_defs env_defs)
  have l2: "load_js_code env_spawn_fails (lit ''./MAIN_SSLPINING.js'') st_payload =
      (Returned [0x2F, 0x2F], ?s1)"
    by (simp add: load_js_code_def validate_js_file_def comp_defs world_defs env_defs)
  have b1: "hook_try_body env_unreachable [0x2F, 0x2F] ?s1 =
      (Raised TransportError, ?s1\<lparr>trace := trace ?s1 @ [FridaGetUsbDevice 5]\<rparr>)"
    by (simp add: hook_try_body_def comp_defs world_defs env_defs)
  have b2: "hook_try_body env_spawn_fails [0x2F, 0x2F] ?s1 =
      (Raised (OtherException 7),
       ?s1\<lparr>trace := trace ?s1 @
              [FridaGetUsbDevice 5, Print MsgSpawning,
               FridaSpawn 1 [lit ''com.facebook.katana'']]\<rparr>)"
    by (simp add: hook_try_body_def comp_defs world_defs env_defs)
  show ?thesis
    using l1 b1 b2 hook_failure_diagnostics [OF l1 b1] hook_failure_diagnostics [OF l2 b2]
    by simp
qed

text \<open>
  The claim as stated (a failed connection gets the diagnostic of the unreachable
  server, and no other failure does) fails in both directions. When the connect call
  \<open>frida.get_usb_device(timeout=5)\<close> fails with an exception that is not a
  \<open>TransportError\<close>, the run ends with the generic diagnostic. When the connection is
  made and \<open>script.load\<close> raises \<open>TransportError\<close>, the run ends with the diagnostic of
  the unreachable server.
\<close>

theorem hook_connect_diagnostic_counterexample:
  "frida_get_usb_device env_connect_other 5 = Inl (FridaOther 0) \<and>
   hook_proxygen_SSLVerification env_connect_other st_payload =
     (Raised (SystemExit 1),
      \<lparr>fs = fs_payload,
       trace = [FileOpenR (lit ''./MAIN_SSLPINING.js''),
                FileRead (lit ''./MAIN_SSLPINING.js''),
                FridaGetUsbDevice 5,
                Print (MsgError (OtherException 0))]\<rparr>) \<and>
   frida_get_usb_device env_load_transport 5 = Inr 1 \<and>
   hook_proxygen_SSLVerification env_load_transport st_payload =
     (Raised (SystemExit 1),
      \<lparr>fs = fs_payload,
       trace = [FileOpenR (lit ''./MAIN_SSLPINING.js''),
                FileRead (lit ''./MAIN_SSLPINING.js''),
                FridaGetUsbDevice 5, Print MsgSpawning,
                FridaSpawn 1 [lit ''com.facebook.katana''],
                FridaAttach 1 4242, FridaResume 1 4242,
                FridaCreateScript 2 [0x2F, 0x2F],
                FridaScriptOn 3 (lit ''message''),
                FridaScriptLoad 3,
                Print MsgConnectFailed]\<rparr>)"
  by (simp add: hook_proxygen_SSLVerification_def hook_try_body_def load_js_code_def
        validate_js_file_def comp_defs world_defs env_defs Let_def)

text \<open>
  C1 (as amended). The calls into the runtime are issued in the fixed order
  connect, spawn, attach, resume, create script, register the message handler, load:
  the calls of any run form an initial part of that sequence. In particular, in every
  run that reaches the load call, the process has been resumed before the script was
  created.
\<close>

theorem hook_call_order:
  "prefix
     (frida_calls (trace (snd (hook_proxygen_SSLVerification env \<lparr>fs = f, trace = []\<rparr>))))
     [KConnect, KSpawn, KAttach, KResume, KCreateScript, KScriptOn, KScriptLoad] \<and>
   (KScriptLoad \<in> set (frida_calls
        (trace (snd (hook_proxygen_SSLVerification env \<lparr>fs = f, trace = []\<rparr>)))) \<longrightarrow>
    calls_before KScriptLoad
      (frida_calls (trace (snd (hook_proxygen_SSLVerification env \<lparr>fs = f, trace = []\<rparr>))))
      = [KConnect, KSpawn, KAttach, KResume, KCreateScript, KScriptOn])"
  by (simp add: hook_proxygen_SSLVerification_def hook_try_body_def load_js_code_def
        validate_js_file_def comp_defs world_defs Let_def frida_calls_def calls_before_def
        List.map_filter_simps
      split: sum.splits option.splits)

theorem hook_call_order_witness:
  "KScriptLoad \<in> set (frida_calls
      (trace (snd (hook_proxygen_SSLVerification env_ok \<lparr>fs = fs_payload, trace = []\<rparr>)))) \<and>
   frida_calls
      (trace (snd (hook_proxygen_SSLVerification env_ok \<lparr>fs = fs_payload, trace = []\<rparr>)))
     = [KConnect, KSpawn, KAttach, KResume, KCreateScript, KScriptOn, KScriptLoad] \<and>
   calls_before KScriptLoad
     (frida_calls
        (trace (snd (hook_proxygen_SSLVerification env_ok \<lparr>fs = fs_payload, trace = []\<rparr>))))
     = [KConnect, KSpawn, KAttach, KResume, KCreateScript, KScriptOn]"
proof -
  have run: "frida_calls
      (trace (snd (hook_proxygen_SSLVerification env_ok \<lparr>fs = fs_payload, trace = []\<rparr>)))
     = [KConnect, KSpawn, KAttach, KResume, KCreateScript, KScriptOn, KScriptLoad]"
    by (simp add: hook_proxygen_SSLVerification_def hook_try_body_def load_js_code_def
          validate_js_file_def comp_defs world_defs env_defs Let_def frida_calls_def
          List.map_filter_simps)
  then have h: "KScriptLoad \<in> set (frida_calls
      (trace (snd (hook_proxygen_SSLVerification env_ok \<lparr>fs = fs_payload, trace = []\<rparr>))))"
    by simp
  show ?thesis
    using hook_call_order [of env_ok fs_payload] h run by simp
qed

text \<open>
  The claim as stated (the script is created and loaded before the process is resumed)
  fails on a run in which every call succeeds: the resume call is issued, and neither the
  creation nor the load of the script precedes it.
\<close>

theorem hook_resume_before_load_counterexample:
  "KResume \<in> set (frida_calls
      (trace (snd (hook_proxygen_SSLVerification env_ok st_payload)))) \<and>
   KCreateScript \<notin> set (calls_before KResume
      (frida_calls (trace (snd (hook_proxygen_SSLVerification env_ok st_payload))))) \<and>
   KScriptLoad \<notin> set (calls_before KResume
      (frida_calls (trace (snd (hook_proxygen_SSLVerification env_ok st_payload)))))"
  by (simp add: hook_proxygen_SSLVerification_def hook_try_body_def load_js_code_def
        validate_js_file_def comp_defs world_defs env_defs Let_def frida_calls_def
        calls_before_def List.map_filter_simps)

section \<open>The download\<close>

text \<open>
  The local paths of the download are pairwise different: the archive and the versioned
  file name are longer than \<open>frida-server\<close>, and the archive name ends in \<open>.xz\<close>.
\<close>

lemma length_lit: "length (lit s) = length s"
  by (simp add: lit_def)

lemma xz_ne_server:
  "lit ''frida-server-'' @ v @ lit ''-'' @ a @ lit ''.xz'' \<noteq> lit ''frida-server''"
proof
  assume "lit ''frida-server-'' @ v @ lit ''-'' @ a @ lit ''.xz'' = lit ''frida-server''"
  then have "length (lit ''frida-server-'' @ v @ lit ''-'' @ a @ lit ''.xz'')
      = length (lit ''frida-server'')"
    by (rule arg_cong)
  then show False
    by (simp add: length_lit)
qed

lemma name_ne_server:
  "lit ''frida-server-'' @ v @ lit ''-'' @ a \<noteq> lit ''frida-server''"
proof
  assume "lit ''frida-server-'' @ v @ lit ''-'' @ a = lit ''frida-server''"
  then have "length (lit ''frida-server-'' @ v @ lit ''-'' @ a) = length (lit ''frida-server'')"
    by (rule arg_cong)
  then show False
    by (simp add: length_lit)
qed

lemma lit_eq_Nil: "(lit s = []) = (s = [])"
  by (simp add: lit_def)

lemma xz_ne_name:
  "lit ''frida-server-'' @ v @ lit ''-'' @ a @ lit ''.xz'' \<noteq> lit ''frida-server-'' @ v @ lit ''-'' @ a"
  by (simp add: lit_eq_Nil)

lemmas path_simps =
  lit_eq_Nil xz_ne_server name_ne_server xz_ne_server [symmetric] name_ne_server [symmetric]

text \<open>
  What a computation that returns has done: for the sequencing operators, each part has
  returned; for the calls into the outside world, the call did not fail, and the state
  has the event and the effect of the call.
\<close>

lemma pbind_Returned:
  "(pbind m k s = (Returned y, s')) =
     (\<exists>x s1. m s = (Returned x, s1) \<and> k x s1 = (Returned y, s'))"
  by (cases "m s") (auto simp add: pbind_def split: result.splits)

lemma pthen_Returned:
  "(pthen m k s = (Returned y, s')) =
     (\<exists>x s1. m s = (Returned x, s1) \<and> k s1 = (Returned y, s'))"
  by (simp add: pthen_def pbind_Returned)

lemma try_exit_Returned:
  "(try_except m (\<lambda>e. if P e then Some (pthen (py_print (M e)) (sys_exit c)) else None) s
      = (Returned y, s')) = (m s = (Returned y, s'))"
  by (cases "m s") (auto simp add: comp_defs split: result.splits)

lemma ret_Returned: "(ret x s = (Returned y, s')) = (y = x \<and> s' = s)"
  by (auto simp add: ret_def)

lemma py_print_Returned:
  "(py_print m s = (Returned y, s')) = (s' = s\<lparr>trace := trace s @ [Print m]\<rparr>)"
  by (auto simp add: comp_defs)

lemma requests_get_Returned:
  "(requests_get env url s = (Returned r, s')) =
     (http_get env url = Inr r \<and> s' = s\<lparr>trace := trace s @ [HttpGet url]\<rparr>)"
  by (auto simp add: requests_get_def comp_defs split: sum.splits)

lemma raise_for_status_Returned:
  "(raise_for_status r s = (Returned y, s')) =
     (\<not> (400 \<le> status_code r \<and> status_code r < 600) \<and> s' = s)"
  by (auto simp add: raise_for_status_def comp_defs)

lemma open_wb_Returned:
  "(open_wb env p s = (Returned y, s')) =
     (fs_fault env (OpOpenW p) = None \<and>
      s' = s\<lparr>trace := trace s @ [FileOpenW p], fs := (fs s)(p \<mapsto> [])\<rparr>)"
  by (auto simp add: open_wb_def comp_defs split: option.splits)

lemma file_write_Returned:
  "(file_write env p d s = (Returned y, s')) =
     (fs_fault env (OpWrite p) = None \<and>
      s' = s\<lparr>trace := trace s @ [FileWrite p d],
             fs := (fs s)(p \<mapsto> (case fs s p of None \<Rightarrow> d | Some old \<Rightarrow> old @ d))\<rparr>)"
  by (auto simp add: file_write_def comp_defs split: option.splits)

lemma open_rb_Returned:
  "(open_rb env p s = (Returned y, s')) =
     (fs s p \<noteq> None \<and> fs_fault env (OpOpenR p) = None \<and>
      s' = s\<lparr>trace := trace s @ [FileOpenR p]\<rparr>)"
  by (auto simp add: open_rb_def comp_defs split: option.splits)

lemma lzma_read_Returned:
  "(lzma_read env p s = (Returned x, s')) =
     (lzma_decompress env (case fs s p of None \<Rightarrow> [] | Some d \<Rightarrow> d) = Some x \<and>
      s' = s\<lparr>trace := trace s @ [FileRead p]\<rparr>)"
  by (auto simp add: lzma_read_def file_read_def comp_defs split: option.splits)

lemma os_remove_Returned:
  "(os_remove env p s = (Returned y, s')) =
     (fs s p \<noteq> None \<and> fs_fault env (OpRemove p) = None \<and>
      s' = s\<lparr>trace := trace s @ [FileRemove p], fs := (fs s)(p := None)\<rparr>)"
  by (auto simp add: os_remove_def comp_defs split: option.splits)

lemma os_path_exists_Returned:
  "(os_path_exists p s = (Returned b, s')) = (b = (fs s p \<noteq> None) \<and> s' = s)"
  by (auto simp add: os_path_exists_def)

lemma pbind_ReturnedE:
  assumes "pbind m k s = (Returned y, s')"
  obtains x s1 where "m s = (Returned x, s1)" and "k x s1 = (Returned y, s')"
  using assms by (auto simp add: pbind_Returned)

lemma pthen_ReturnedE:
  assumes "pthen m k s = (Returned y, s')"
  obtains x s1 where "m s = (Returned x, s1)" and "k s1 = (Returned y, s')"
  using assms by (auto simp add: pthen_Returned)

lemma try_exit_ReturnedE:
  assumes "try_except m (\<lambda>e. if P e then Some (pthen (py_print (M e)) (sys_exit c)) else None) s
      = (Returned y, s')"
  obtains "m s = (Returned y, s')"
  using assms by (simp add: try_exit_Returned)

lemmas prim_Returned =
  ret_Returned py_print_Returned
  requests_get_Returned raise_for_status_Returned open_wb_Returned file_write_Returned
  open_rb_Returned lzma_read_Returned os_remove_Returned os_path_exists_Returned

text \<open>
  A call of \<open>download_frida_server\<close> that returns: the request was answered with a
  status outside 400 to 599, the content was decompressed, and these are the events and
  the files of the call.
\<close>

lemma download_returns:
  assumes "download_frida_server env v a s = (Returned r, s')"
  shows "\<exists>resp d.
     http_get env (lit ''https://github.com/frida/frida/releases/download/'' @ v @ lit ''/'' @
                   lit ''frida-server-'' @ v @ lit ''-'' @ a @ lit ''.xz'') = Inr resp \<and>
     \<not> (400 \<le> status_code resp \<and> status_code resp < 600) \<and>
     lzma_decompress env (content resp) = Some d \<and>
     r = lit ''frida-server'' \<and>
     fs s' = (\<lambda>p. if p = lit ''frida-server'' then Some d
                   else if p = lit ''frida-server-'' @ v @ lit ''-'' @ a @ lit ''.xz'' \<or>
                           p = lit ''frida-server-'' @ v @ lit ''-'' @ a then None
                   else fs s p) \<and>
     trace s' = trace s @
       [Print (MsgDownloading
                 (lit ''https://github.com/frida/frida/releases/download/'' @ v @ lit ''/'' @
                  lit ''frida-server-'' @ v @ lit ''-'' @ a @ lit ''.xz'')),
        HttpGet (lit ''https://github.com/frida/frida/releases/download/'' @ v @ lit ''/'' @
                 lit ''frida-server-'' @ v @ lit ''-'' @ a @ lit ''.xz''),
        Print MsgDownloadOk,
        FileOpenW (lit ''frida-server-'' @ v @ lit ''-'' @ a @ lit ''.xz''),
        FileWrite (lit ''frida-server-'' @ v @ lit ''-'' @ a @ lit ''.xz'') (content resp),
        FileOpenR (lit ''frida-server-'' @ v @ lit ''-'' @ a @ lit ''.xz''),
        FileOpenW (lit ''frida-server''),
        FileRead (lit ''frida-server-'' @ v @ lit ''-'' @ a @ lit ''.xz''),
        FileWrite (lit ''frida-server'') d,
        FileRemove (lit ''frida-server-'' @ v @ lit ''-'' @ a @ lit ''.xz'')] @
       (if fs s (lit ''frida-server-'' @ v @ lit ''-'' @ a) = None then []
        else [FileRemove (lit ''frida-server-'' @ v @ lit ''-'' @ a)])"
  using assms
  apply (unfold download_frida_server_def Let_def)
  apply (elim pthen_ReturnedE pbind_ReturnedE try_exit_ReturnedE)
  apply (clarsimp simp add: prim_Returned path_simps xz_ne_name split: if_splits)
   apply (simp_all add: fun_eq_iff path_simps xz_ne_name)
  done

text \<open>
  C4. Every call of \<open>download_frida_server\<close> that returns has made exactly one HTTP
  request, for the compressed artifact of the version and architecture; has written
  exactly two local files, the compressed file with the content of the response and
  \<open>frida-server\<close> with the decompressed content; has removed the compressed file, which
  does not exist afterwards; and returns the name \<open>frida-server\<close>.
\<close>

theorem download_frida_server_success:
  "download_frida_server env v a \<lparr>fs = f, trace = []\<rparr> = (Returned r, s') \<Longrightarrow>
   r = lit ''frida-server'' \<and>
   (\<exists>resp d.
      http_get env (lit ''https://github.com/frida/frida/releases/download/'' @ v @ lit ''/'' @
                    lit ''frida-server-'' @ v @ lit ''-'' @ a @ lit ''.xz'') = Inr resp \<and>
      lzma_decompress env (content resp) = Some d \<and>
      filter is_http (trace s') =
        [HttpGet (lit ''https://github.com/frida/frida/releases/download/'' @ v @ lit ''/'' @
                  lit ''frida-server-'' @ v @ lit ''-'' @ a @ lit ''.xz'')] \<and>
      filter is_file_write (trace s') =
        [FileOpenW (lit ''frida-server-'' @ v @ lit ''-'' @ a @ lit ''.xz''),
         FileWrite (lit ''frida-server-'' @ v @ lit ''-'' @ a @ lit ''.xz'') (content resp),
         FileOpenW (lit ''frida-server''),
         FileWrite (lit ''frida-server'') d] \<and>
      FileRemove (lit ''frida-server-'' @ v @ lit ''-'' @ a @ lit ''.xz'') \<in> set (trace s') \<and>
      fs s' (lit ''frida-server-'' @ v @ lit ''-'' @ a @ lit ''.xz'') = None \<and>
      fs s' (lit ''frida-server'') = Some d)"
  by (drule download_returns) (auto simp add: path_simps)

theorem download_frida_server_success_witness:
  "fst (download_frida_server env_ok (lit ''16.5.9'') (lit ''android-arm64'')
          \<lparr>fs = Map.empty, trace = []\<rparr>) = Returned (lit ''frida-server'') \<and>
   filter is_http
     (trace (snd (download_frida_server env_ok (lit ''16.5.9'') (lit ''android-arm64'')
                    \<lparr>fs = Map.empty, trace = []\<rparr>))) =
     [HttpGet (lit ''https://github.com/frida/frida/releases/download/16.5.9/frida-server-16.5.9-android-arm64.xz'')] \<and>
   filter is_file_write
     (trace (snd (download_frida_server env_ok (lit ''16.5.9'') (lit ''android-arm64'')
                    \<lparr>fs = Map.empty, trace = []\<rparr>))) =
     [FileOpenW (lit ''frida-server-16.5.9-android-arm64.xz''),
      FileWrite (lit ''frida-server-16.5.9-android-arm64.xz'') [0xFD, 0x37],
      FileOpenW (lit ''frida-server''),
      FileWrite (lit ''frida-server'') [0x7F, 0xFD, 0x37]] \<and>
   fs (snd (download_frida_server env_ok (lit ''16.5.9'') (lit ''android-arm64'')
              \<lparr>fs = Map.empty, trace = []\<rparr>))
      (lit ''frida-server-16.5.9-android-arm64.xz'') = None \<and>
   fs (snd (download_frida_server env_ok (lit ''16.5.9'') (lit ''android-arm64'')
              \<lparr>fs = Map.empty, trace = []\<rparr>))
      (lit ''frida-server'') = Some [0x7F, 0xFD, 0x37]"
proof -
  let ?run = "download_frida_server env_ok (lit ''16.5.9'') (lit ''android-arm64'')
                \<lparr>fs = Map.empty, trace = []\<rparr>"
  have r: "fst ?run = Returned (lit ''frida-server'')"
    by (simp add: download_frida_server_def Let_def comp_defs world_defs env_defs lit_def)
  then have h: "?run = (Returned (lit ''frida-server''), snd ?run)"
    by (simp add: prod_eq_iff)
  have g: "http_get env_ok u = Inr \<lparr>status_code = 200, content = [0xFD, 0x37]\<rparr>" for u
    by (simp add: env_defs)
  have z: "lzma_decompress env_ok c = Some (0x7F # c)" for c
    by (simp add: env_defs)
  show ?thesis
    using r download_frida_server_success [OF h] by (simp add: g z lit_def)
qed

section \<open>The pipeline\<close>

text \<open>
  C7. When the debug bridge is installed and the output of \<open>adb get-state\<close> does not
  contain \<open>device\<close>, the whole program exits with status 1 right after that check: the
  events of the run are the banner, the two commands and the diagnostic, so there is no
  download, no local write, no push and no call into the runtime.
\<close>

theorem main_no_device:
  "proc_run env [lit ''adb'', lit ''version''] False = Inr v \<Longrightarrow>
   proc_run env [lit ''adb'', lit ''get-state''] False = Inr g \<Longrightarrow>
   \<not> str_in (lit ''device'') (stdout g) \<Longrightarrow>
   main env \<lparr>fs = f, trace = []\<rparr> =
     (Raised (SystemExit 1),
      \<lparr>fs = f,
       trace = [Print MsgWelcome, Print MsgLogo, Print MsgSetupStart,
                SubprocessRun [lit ''adb'', lit ''version''] False,
                SubprocessRun [lit ''adb'', lit ''get-state''] False,
                Print MsgNoDevice]\<rparr>) \<and>
   \<not> list_ex is_http (trace (snd (main env \<lparr>fs = f, trace = []\<rparr>))) \<and>
   \<not> list_ex is_file_write (trace (snd (main env \<lparr>fs = f, trace = []\<rparr>))) \<and>
   \<not> list_ex is_push (trace (snd (main env \<lparr>fs = f, trace = []\<rparr>))) \<and>
   \<not> list_ex is_frida (trace (snd (main env \<lparr>fs = f, trace = []\<rparr>)))"
  by (simp add: main_def create_logo_def start_frida_server_def check_adb_availability_def
        check_device_connection_def comp_defs world_defs lit_def)

theorem main_no_device_witness:
  "proc_run env_no_device [lit ''adb'', lit ''version''] False =
     Inr \<lparr>returncode = 1, stdout = [], stderr = lit ''error: no devices/emulators found''\<rparr> \<and>
   proc_run env_no_device [lit ''adb'', lit ''get-state''] False =
     Inr \<lparr>returncode = 1, stdout = [], stderr = lit ''error: no devices/emulators found''\<rparr> \<and>
   \<not> str_in (lit ''device'') [] \<and>
   main env_no_device \<lparr>fs = fs_payload, trace = []\<rparr> =
     (Raised (SystemExit 1),
      \<lparr>fs = fs_payload,
       trace = [Print MsgWelcome, Print MsgLogo, Print MsgSetupStart,
                SubprocessRun [lit ''adb'', lit ''version''] False,
                SubprocessRun [lit ''adb'', lit ''get-state''] False,
                Print MsgNoDevice]\<rparr>)"
proof -
  let ?r = "\<lparr>returncode = 1, stdout = [],
             stderr = lit ''error: no devices/emulators found''\<rparr>"
  have h: "proc_run env_no_device argv shell = Inr ?r" for argv shell
    by (simp add: env_defs)
  have n: "\<not> str_in (lit ''device'') (stdout ?r)"
    by (simp add: lit_def)
  show ?thesis
    using h n main_no_device [OF h h n, of fs_payload] by simp
qed

section \<open>Steps that leave the artifact alone\<close>

text \<open>
  The sequencing operators preserve \<open>same_on\<close>, and so does every call that neither
  touches a local file nor adds an event selected by \<open>Q\<close>.
\<close>

lemma same_on_refl: "same_on Q s s"
  by (simp add: same_on_def)

lemma same_on_trans: "same_on Q s s1 \<Longrightarrow> same_on Q s1 s2 \<Longrightarrow> same_on Q s s2"
  by (simp add: same_on_def)

lemma same_on_mono:
  assumes "same_on Q s s'" and "\<And>e. P e \<Longrightarrow> Q e"
  shows "same_on P s s'"
proof -
  have "filter P xs = filter P (filter Q xs)" for xs
    using assms(2) by (induction xs) auto
  then have "filter P (trace s') = filter P (filter Q (trace s'))"
    and "filter P (trace s) = filter P (filter Q (trace s))"
    by blast+
  with assms(1) show ?thesis
    by (simp add: same_on_def)
qed

lemma ret_same: "same_on Q s (snd (ret x s))"
  by (simp add: ret_def same_on_def)

lemma raise_same: "same_on Q s (snd (raise e s))"
  by (simp add: raise_def same_on_def)

lemma sys_exit_same: "same_on Q s (snd (sys_exit c s))"
  by (simp add: sys_exit_def raise_same)

lemma emit_same: "\<not> Q e \<Longrightarrow> same_on Q s (snd (emit e s))"
  by (simp add: emit_def same_on_def)

lemma py_print_same: "\<not> Q (Print m) \<Longrightarrow> same_on Q s (snd (py_print m s))"
  by (simp add: py_print_def emit_same)

lemma pbind_same:
  assumes "\<And>s. same_on Q s (snd (m s))" and "\<And>x s. same_on Q s (snd (k x s))"
  shows "same_on Q s (snd (pbind m k s))"
proof (cases "m s")
  case (Pair r s1)
  then have a: "same_on Q s s1"
    using assms(1) [of s] by simp
  show ?thesis
  proof (cases r)
    case (Returned x)
    then show ?thesis
      using Pair a assms(2) [of s1 x] by (simp add: pbind_def same_on_trans)
  next
    case (Raised e)
    then show ?thesis
      using Pair a by (simp add: pbind_def)
  qed
qed

lemma pthen_same:
  assumes "\<And>s. same_on Q s (snd (m s))" and "\<And>s. same_on Q s (snd (k s))"
  shows "same_on Q s (snd (pthen m k s))"
  unfolding pthen_def using assms by (rule pbind_same)

lemma try_except_same:
  assumes "\<And>s. same_on Q s (snd (m s))"
    and "\<And>e k s. h e = Some k \<Longrightarrow> same_on Q s (snd (k s))"
  shows "same_on Q s (snd (try_except m h s))"
proof (cases "m s")
  case (Pair r s1)
  then have a: "same_on Q s s1"
    using assms(1) [of s] by simp
  show ?thesis
  proof (cases r)
    case (Returned x)
    then show ?thesis
      using Pair a by (simp add: try_except_def)
  next
    case (Raised e)
    show ?thesis
    proof (cases "h e")
      case None
      then show ?thesis
        using Pair Raised a by (simp add: try_except_def)
    next
      case (Some k)
      then show ?thesis
        using Pair Raised a assms(2) [OF Some, of s1] by (simp add: try_except_def same_on_trans)
    qed
  qed
qed

lemma subprocess_run_same:
  "\<not> Q (SubprocessRun argv sh) \<Longrightarrow> same_on Q s (snd (subprocess_run env argv sh s))"
  by (simp add: subprocess_run_def comp_defs same_on_def split: sum.splits)

lemma subprocess_check_output_same:
  "\<not> Q (CheckOutput argv) \<Longrightarrow> same_on Q s (snd (subprocess_check_output env argv s))"
  by (simp add: subprocess_check_output_def comp_defs same_on_def split: sum.splits)

lemma subprocess_Popen_same:
  "\<not> Q (Popen argv) \<Longrightarrow> same_on Q s (snd (subprocess_Popen env argv s))"
  by (simp add: subprocess_Popen_def comp_defs same_on_def split: option.splits)

lemma time_sleep_same: "\<not> Q (Sleep n) \<Longrightarrow> same_on Q s (snd (time_sleep n s))"
  by (simp add: time_sleep_def emit_same)

lemma bytes_decode_utf8_same: "same_on Q s (snd (bytes_decode_utf8 b s))"
  by (simp add: bytes_decode_utf8_def comp_defs same_on_def split: option.splits)

lemmas same_intros =
  ret_same raise_same sys_exit_same py_print_same pbind_same pthen_same try_except_same
  subprocess_run_same subprocess_check_output_same subprocess_Popen_same time_sleep_same
  bytes_decode_utf8_same

lemma get_prop_same: "same_on is_artifact_event s (snd (get_prop env name s))"
  unfolding get_prop_def
  by (auto intro!: same_intros simp add: is_artifact_event_def split: if_splits)

lemma check_adb_availability_same:
  "same_on is_artifact_event s (snd (check_adb_availability env s))"
  unfolding check_adb_availability_def
  by (auto intro!: same_intros simp add: is_artifact_event_def lit_def split: if_splits)

lemma check_device_connection_same:
  "same_on is_artifact_event s (snd (check_device_connection env s))"
  unfolding check_device_connection_def
  by (auto intro!: same_intros get_prop_same simp add: is_artifact_event_def lit_def
      split: if_splits)

lemma launch_scrcpy_same: "same_on is_artifact_event s (snd (launch_scrcpy env s))"
  unfolding launch_scrcpy_def
  by (auto intro!: same_intros simp add: is_artifact_event_def split: if_splits)

lemma get_device_arch_same: "same_on is_artifact_event s (snd (get_device_arch env s))"
  unfolding get_device_arch_def
  by (auto intro!: same_intros simp add: is_artifact_event_def lit_def Let_def
      split: if_splits)

lemma check_existing_frida_server_same:
  "same_on is_artifact_event s (snd (check_existing_frida_server env s))"
  unfolding check_existing_frida_server_def
  by (auto intro!: same_intros simp add: is_artifact_event_def lit_def split: if_splits)

lemma start_frida_None_same: "same_on is_artifact_event s (snd (start_frida env None s))"
  unfolding start_frida_def
  by (auto intro!: same_intros simp add: is_artifact_event_def lit_def split: if_splits)

text \<open>
  \<open>check_existing_frida_server\<close> returns whether the listing command succeeded; a
  command that cannot be run counts as a missing binary.
\<close>

lemma is_Exception_fault: "is_Exception (exn_of_fault x)"
  by (cases x) simp_all

lemma check_existing_run:
  "check_existing_frida_server env s =
     (Returned (server_on_device env),
      s\<lparr>trace := trace s @
           SubprocessRun
             [lit ''adb'', lit ''shell'', lit ''ls'', lit ''/data/local/tmp/frida-server'']
             False #
           (if server_on_device env then [Print MsgServerExists] else [])\<rparr>)"
  by (simp add: check_existing_frida_server_def server_on_device_def comp_defs world_defs
        is_Exception_fault split: sum.splits)

lemma existing_branch_same:
  assumes "server_on_device env"
  shows "same_on is_artifact_event s
     (snd (pbind (check_existing_frida_server env)
             (\<lambda>ex. if ex then start_frida env None else other) s))"
proof -
  let ?s1 = "snd (check_existing_frida_server env s)"
  have "pbind (check_existing_frida_server env)
          (\<lambda>ex. if ex then start_frida env None else other) s = start_frida env None ?s1"
    using assms by (simp add: pbind_def check_existing_run)
  moreover have "same_on is_artifact_event s ?s1"
    by (rule check_existing_frida_server_same)
  moreover have "same_on is_artifact_event ?s1 (snd (start_frida env None ?s1))"
    by (rule start_frida_None_same)
  ultimately show ?thesis
    by (simp only: same_on_trans)
qed

lemma start_frida_server_same:
  assumes "server_on_device env"
  shows "same_on is_artifact_event s (snd (start_frida_server env s))"
  unfolding start_frida_server_def
  apply (rule pthen_same)
   apply (rule py_print_same, simp add: is_artifact_event_def)
  apply (rule pthen_same, rule check_adb_availability_same)
  apply (rule pthen_same, rule check_device_connection_same)
  apply (rule pthen_same, rule launch_scrcpy_same)
  apply (rule pbind_same, rule get_device_arch_same)
  apply (rule pthen_same)
   apply (rule py_print_same, simp add: is_artifact_event_def)
  apply (rule existing_branch_same [OF assms])
  done

text \<open>
  C3. When the server binary is already on the device, in the whole run of
  \<open>start_frida_server\<close> the local files stay as they were, and no event is a network
  request, a write to a local file, a push to the device or the announcement with which
  \<open>download_frida_server\<close> starts.
\<close>

theorem start_frida_server_existing:
  "server_on_device env \<Longrightarrow>
   fs (snd (start_frida_server env \<lparr>fs = f, trace = []\<rparr>)) = f \<and>
   \<not> list_ex is_http (trace (snd (start_frida_server env \<lparr>fs = f, trace = []\<rparr>))) \<and>
   \<not> list_ex is_file_write (trace (snd (start_frida_server env \<lparr>fs = f, trace = []\<rparr>))) \<and>
   \<not> list_ex is_push (trace (snd (start_frida_server env \<lparr>fs = f, trace = []\<rparr>))) \<and>
   \<not> list_ex is_download_start
        (trace (snd (start_frida_server env \<lparr>fs = f, trace = []\<rparr>)))"
proof -
  assume "server_on_device env"
  then have "same_on is_artifact_event \<lparr>fs = f, trace = []\<rparr>
      (snd (start_frida_server env \<lparr>fs = f, trace = []\<rparr>))"
    by (rule start_frida_server_same)
  then have a: "fs (snd (start_frida_server env \<lparr>fs = f, trace = []\<rparr>)) = f"
    and b: "\<forall>e \<in> set (trace (snd (start_frida_server env \<lparr>fs = f, trace = []\<rparr>))).
              \<not> is_artifact_event e"
    by (simp_all add: same_on_def filter_empty_conv)
  from b have "\<forall>e \<in> set (trace (snd (start_frida_server env \<lparr>fs = f, trace = []\<rparr>))).
      \<not> is_http e \<and> \<not> is_file_write e \<and> \<not> is_push e \<and> \<not> is_download_start e"
    by (simp add: is_artifact_event_def)
  with a show ?thesis
    by (simp add: list_ex_iff)
qed

theorem start_frida_server_existing_witness:
  "server_on_device env_ok \<and>
   fst (start_frida_server env_ok \<lparr>fs = fs_payload, trace = []\<rparr>) = Returned () \<and>
   fs (snd (start_frida_server env_ok \<lparr>fs = fs_payload, trace = []\<rparr>)) = fs_payload \<and>
   \<not> list_ex is_http (trace (snd (start_frida_server env_ok \<lparr>fs = fs_payload, trace = []\<rparr>))) \<and>
   \<not> list_ex is_file_write
        (trace (snd (start_frida_server env_ok \<lparr>fs = fs_payload, trace = []\<rparr>))) \<and>
   \<not> list_ex is_push (trace (snd (start_frida_server env_ok \<lparr>fs = fs_payload, trace = []\<rparr>)))"
proof -
  have h: "server_on_device env_ok"
    by (simp add: server_on_device_def env_defs)
  have r: "fst (start_frida_server env_ok \<lparr>fs = fs_payload, trace = []\<rparr>) = Returned ()"
    by (simp add: start_frida_server_def check_adb_availability_def
          check_device_connection_def get_prop_def launch_scrcpy_def get_device_arch_def
          check_existing_frida_server_def start_frida_def comp_defs world_defs env_defs
          Let_def lit_def)
  show ?thesis
    using h r start_frida_server_existing [OF h, of fs_payload] by simp
qed

section \<open>The download path of the pipeline\<close>

text \<open>
  \<open>start_frida\<close> writes no local file; given a file name, a call that returns has
  pushed that file to the device.
\<close>

lemma subprocess_run_Returned:
  "(subprocess_run env argv sh s = (Returned cp, s')) =
     (proc_run env argv sh = Inr cp \<and> s' = s\<lparr>trace := trace s @ [SubprocessRun argv sh]\<rparr>)"
  by (auto simp add: subprocess_run_def comp_defs split: sum.splits)

lemma time_sleep_Returned:
  "(time_sleep n s = (Returned y, s')) = (s' = s\<lparr>trace := trace s @ [Sleep n]\<rparr>)"
  by (auto simp add: time_sleep_def comp_defs)

lemma start_frida_same_write: "same_on is_file_write s (snd (start_frida env filename s))"
  unfolding start_frida_def
  by (auto intro!: same_intros split: if_splits option.splits)

lemma start_frida_pushes:
  assumes "start_frida env (Some f) s = (Returned u, s')" and "f \<noteq> []"
  shows "SubprocessRun [lit ''adb'', lit ''push'', f, lit ''/data/local/tmp/frida-server'']
           False \<in> set (trace s')"
  using assms
  apply (simp add: start_frida_def)
  apply (elim pthen_ReturnedE pbind_ReturnedE try_exit_ReturnedE)
  apply (clarsimp simp add: prim_Returned subprocess_run_Returned time_sleep_Returned
      split: if_splits)
  done

lemma written_paths_filter: "written_paths (filter is_file_write tr) = written_paths tr"
  by (induction tr rule: written_paths.induct) simp_all

text \<open>
  Following a run that returns through a sequence of steps, each of which leaves the
  files and the selected events alone.
\<close>

lemma pthen_frameE:
  assumes "pthen m k s1 = (Returned y, s')"
    and "same_on Q s0 s1"
    and "\<And>s. same_on Q s (snd (m s))"
    and "\<And>s2. same_on Q s0 s2 \<Longrightarrow> k s2 = (Returned y, s') \<Longrightarrow> P"
  shows P
proof -
  from assms(1) obtain x s2 where a: "m s1 = (Returned x, s2)" and b: "k s2 = (Returned y, s')"
    by (rule pthen_ReturnedE)
  from a assms(3) [of s1] have "same_on Q s1 s2"
    by simp
  with assms(2) have "same_on Q s0 s2"
    by (rule same_on_trans)
  then show P
    using b by (rule assms(4))
qed

lemma pbind_frameE:
  assumes "pbind m k s1 = (Returned y, s')"
    and "same_on Q s0 s1"
    and "\<And>s. same_on Q s (snd (m s))"
    and "\<And>x s2. m s1 = (Returned x, s2) \<Longrightarrow> same_on Q s0 s2 \<Longrightarrow>
           k x s2 = (Returned y, s') \<Longrightarrow> P"
  shows P
proof -
  from assms(1) obtain x s2 where a: "m s1 = (Returned x, s2)" and b: "k x s2 = (Returned y, s')"
    by (rule pbind_ReturnedE)
  from a assms(3) [of s1] have "same_on Q s1 s2"
    by simp
  with assms(2) have "same_on Q s0 s2"
    by (rule same_on_trans)
  with a show P
    using b by (rule assms(4))
qed

text \<open>
  A run of \<open>start_frida_server\<close> that returns has come through the checks without an
  artifact event, and has then returned from one of the two branches.
\<close>

lemma start_frida_server_returns:
  assumes "start_frida_server env s = (Returned (), s')"
  shows "\<exists>s1 arch. same_on is_artifact_event s s1 \<and>
     (if server_on_device env then start_frida env None
      else pbind (download_frida_server env (lit ''16.5.9'') arch) (\<lambda>filename.
           pthen (start_frida env (Some filename))
             (pbind (os_path_exists filename) (\<lambda>ex.
                if ex then os_remove env filename else ret ())))) s1 = (Returned (), s')"
  using assms same_on_refl [of is_artifact_event s]
  unfolding start_frida_server_def
  apply -
  apply (erule pthen_frameE, assumption, rule py_print_same, simp add: is_artifact_event_def)
  apply (erule pthen_frameE, assumption, rule check_adb_availability_same)
  apply (erule pthen_frameE, assumption, rule check_device_connection_same)
  apply (erule pthen_frameE, assumption, rule launch_scrcpy_same)
  apply (erule pbind_frameE, assumption, rule get_device_arch_same)
  apply (erule pthen_frameE, assumption, rule py_print_same, simp add: is_artifact_event_def)
  apply (erule pbind_frameE, assumption, rule check_existing_frida_server_same)
  apply (fastforce simp add: check_existing_run)
  done

lemma written_paths_append:
  "written_paths (xs @ ys) = written_paths xs @ written_paths ys"
  by (induction xs rule: written_paths.induct) simp_all

text \<open>
  The branch that downloads, deploys and cleans up, when it returns.
\<close>

lemma deploy_returns:
  assumes "pbind (download_frida_server env v a) (\<lambda>filename.
             pthen (start_frida env (Some filename))
               (pbind (os_path_exists filename) (\<lambda>ex.
                  if ex then os_remove env filename else ret ()))) s = (Returned u, s')"
  shows "fs s' (lit ''frida-server'') = None \<and>
         fs s' (lit ''frida-server-'' @ v @ lit ''-'' @ a @ lit ''.xz'') = None \<and>
         (\<forall>p. fs s' p \<noteq> None \<longrightarrow> fs s' p = fs s p) \<and>
         written_paths (trace s') =
           written_paths (trace s) @
           [lit ''frida-server-'' @ v @ lit ''-'' @ a @ lit ''.xz'', lit ''frida-server''] \<and>
         last (trace s') = FileRemove (lit ''frida-server'') \<and>
         SubprocessRun [lit ''adb'', lit ''push'', lit ''frida-server'',
                        lit ''/data/local/tmp/frida-server''] False
           \<in> set (butlast (trace s'))"
proof -
  from assms obtain fn s1 where d: "download_frida_server env v a s = (Returned fn, s1)"
    and r1: "pthen (start_frida env (Some fn))
               (pbind (os_path_exists fn) (\<lambda>ex. if ex then os_remove env fn else ret ())) s1
             = (Returned u, s')"
    by (rule pbind_ReturnedE)
  from r1 obtain x s2 where sf: "start_frida env (Some fn) s1 = (Returned x, s2)"
    and r2: "pbind (os_path_exists fn) (\<lambda>ex. if ex then os_remove env fn else ret ()) s2
             = (Returned u, s')"
    by (rule pthen_ReturnedE)
  from download_returns [OF d] have fn: "fn = lit ''frida-server''"
    by blast
  from download_returns [OF d] obtain dd where
    fs1: "fs s1 = (\<lambda>p. if p = lit ''frida-server'' then Some dd
                   else if p = lit ''frida-server-'' @ v @ lit ''-'' @ a @ lit ''.xz'' \<or>
                           p = lit ''frida-server-'' @ v @ lit ''-'' @ a then None
                   else fs s p)"
    by blast
  from download_returns [OF d] have wp1: "written_paths (trace s1) =
      written_paths (trace s) @
      [lit ''frida-server-'' @ v @ lit ''-'' @ a @ lit ''.xz'', lit ''frida-server'']"
    by (auto simp add: written_paths_append)
  have fr: "same_on is_file_write s1 s2"
    using start_frida_same_write [of s1 env "Some fn"] sf by simp
  have fs2: "fs s2 = fs s1"
    using fr by (simp add: same_on_def)
  have "written_paths (filter is_file_write (trace s2)) =
        written_paths (filter is_file_write (trace s1))"
    using fr by (simp add: same_on_def)
  then have wp2: "written_paths (trace s2) = written_paths (trace s1)"
    by (simp add: written_paths_filter)
  have push: "SubprocessRun [lit ''adb'', lit ''push'', lit ''frida-server'',
                             lit ''/data/local/tmp/frida-server''] False \<in> set (trace s2)"
    using start_frida_pushes [OF sf] fn by (simp add: lit_eq_Nil)
  have fin: "s' = s2\<lparr>trace := trace s2 @ [FileRemove (lit ''frida-server'')],
                      fs := (fs s2)(lit ''frida-server'' := None)\<rparr>"
    using r2 fn fs2 fs1 by (auto simp add: pbind_Returned prim_Returned)
  show ?thesis
    using fin fs2 fs1 wp2 wp1 push by (simp add: written_paths_append path_simps)
qed

text \<open>
  C10. When the server binary is not on the device and \<open>start_frida_server\<close> returns,
  the run has opened exactly two local files for writing (the compressed artifact and
  \<open>frida-server\<close>) and neither exists afterwards; every file that exists afterwards
  existed before the run with the same content; and the removal of \<open>frida-server\<close> is
  the last event of the run, after the push of that file to the device.
\<close>

theorem start_frida_server_download_cleanup:
  "\<not> server_on_device env \<Longrightarrow>
   start_frida_server env \<lparr>fs = f, trace = []\<rparr> = (Returned (), s') \<Longrightarrow>
   fs s' (lit ''frida-server'') = None \<and>
   length (written_paths (trace s')) = 2 \<and>
   list_all (\<lambda>p. fs s' p = None) (written_paths (trace s')) \<and>
   (\<forall>p. fs s' p \<noteq> None \<longrightarrow> fs s' p = f p) \<and>
   last (trace s') = FileRemove (lit ''frida-server'') \<and>
   SubprocessRun [lit ''adb'', lit ''push'', lit ''frida-server'',
                  lit ''/data/local/tmp/frida-server''] False
     \<in> set (butlast (trace s'))"
proof -
  assume ns: "\<not> server_on_device env"
    and run: "start_frida_server env \<lparr>fs = f, trace = []\<rparr> = (Returned (), s')"
  from start_frida_server_returns [OF run] ns obtain s1 arch where
    fr: "same_on is_artifact_event \<lparr>fs = f, trace = []\<rparr> s1" and
    tl: "pbind (download_frida_server env (lit ''16.5.9'') arch) (\<lambda>filename.
           pthen (start_frida env (Some filename))
             (pbind (os_path_exists filename) (\<lambda>ex.
                if ex then os_remove env filename else ret ()))) s1 = (Returned (), s')"
    by auto
  have fs1: "fs s1 = f"
    using fr by (simp add: same_on_def)
  have "same_on is_file_write \<lparr>fs = f, trace = []\<rparr> s1"
    using fr by (rule same_on_mono) (simp add: is_artifact_event_def)
  then have "written_paths (filter is_file_write (trace s1)) = []"
    by (simp add: same_on_def)
  then have wp0: "written_paths (trace s1) = []"
    by (simp add: written_paths_filter)
  show ?thesis
    using deploy_returns [OF tl] fs1 wp0 by simp
qed

theorem start_frida_server_download_cleanup_witness:
  "\<not> server_on_device env_no_server \<and>
   fst (start_frida_server env_no_server \<lparr>fs = fs_payload, trace = []\<rparr>) = Returned () \<and>
   fs (snd (start_frida_server env_no_server \<lparr>fs = fs_payload, trace = []\<rparr>))
      (lit ''frida-server'') = None \<and>
   length (written_paths
      (trace (snd (start_frida_server env_no_server \<lparr>fs = fs_payload, trace = []\<rparr>)))) = 2 \<and>
   last (trace (snd (start_frida_server env_no_server \<lparr>fs = fs_payload, trace = []\<rparr>)))
     = FileRemove (lit ''frida-server'')"
proof -
  let ?run = "start_frida_server env_no_server \<lparr>fs = fs_payload, trace = []\<rparr>"
  have ns: "\<not> server_on_device env_no_server"
    by (simp add: server_on_device_def env_defs)
  have r: "fst ?run = Returned ()"
    by (simp add: start_frida_server_def check_adb_availability_def
          check_device_connection_def get_prop_def launch_scrcpy_def get_device_arch_def
          check_existing_frida_server_def start_frida_def download_frida_server_def
          dict_get_def arch_map_def strip_def py_isspace_def
          comp_defs world_defs env_defs Let_def lit_def)
  then have h: "?run = (Returned (), snd ?run)"
    by (simp add: prod_eq_iff)
  show ?thesis
    using ns r start_frida_server_download_cleanup [OF ns h] by simp
qed

end
